theory Spec2Isabelle
  imports Complex_Main "HOL-Library.AList" "HOL-Library.Log_Nat"
begin

section \<open>Python values and exceptions\<close>

text \<open>
  The program \<^verbatim>\<open>s3_bucket_metrics.py\<close> handles untyped values that come back from the
  AWS SDK: responses are dictionaries with string keys that hold lists, numbers, strings
  and timestamps. They are modelled by the datatype below. A float is either a finite
  number, given by its exact rational value, an infinity or a NaN. Strings are byte
  strings.
\<close>

datatype pyfloat = Finite rat | Infinity bool | NaN

datatype pyval =
    PNone
  | PBool bool
  | PInt int
  | PFloat pyfloat
  | PStr string
  | PDatetime int
  | PList "pyval list"
  | PDict "(string \<times> pyval) list"

text \<open>
  Exceptions are values. \<open>ApiError\<close> stands for whatever the SDK raises when a request
  fails (connection errors, client errors, parameter validation); \<open>SystemExit\<close> is what
  \<^verbatim>\<open>sys.exit(code)\<close> raises.
\<close>

datatype exn =
    KeyError
  | IndexError
  | TypeError
  | ValueError
  | OverflowError
  | ProfileNotFound string
  | ApiError string
  | SystemExit int

definition bind_exn :: "exn + 'a \<Rightarrow> ('a \<Rightarrow> exn + 'b) \<Rightarrow> exn + 'b" where
  "bind_exn r f = (case r of Inl e \<Rightarrow> Inl e | Inr x \<Rightarrow> f x)"

text \<open>
  \<^verbatim>\<open>v[key]\<close> with a string key: a dictionary looks the key up and raises KeyError when
  it is absent; a list or a string refuses a string index and every other value is not
  subscriptable (TypeError in both cases).
\<close>

fun getitem_key :: "pyval \<Rightarrow> string \<Rightarrow> exn + pyval" where
  "getitem_key (PDict kvs) k = (case map_of kvs k of None \<Rightarrow> Inl KeyError | Some v \<Rightarrow> Inr v)"
| "getitem_key v k = Inl TypeError"

text \<open>
  \<^verbatim>\<open>v[0]\<close>: the first element of a list or the first character of a string, IndexError
  when there is none; a dictionary with string keys has no key \<open>0\<close> (KeyError); every
  other value is not subscriptable.
\<close>

fun getitem_0 :: "pyval \<Rightarrow> exn + pyval" where
  "getitem_0 (PList []) = Inl IndexError"
| "getitem_0 (PList (x # xs)) = Inr x"
| "getitem_0 (PStr []) = Inl IndexError"
| "getitem_0 (PStr (c # cs)) = Inr (PStr [c])"
| "getitem_0 (PDict kvs) = Inl KeyError"
| "getitem_0 v = Inl TypeError"

text \<open>
  \<^verbatim>\<open>for b in v\<close>: a list yields its elements, a dictionary its keys, a string its
  characters; nothing else is iterable.
\<close>

fun py_iter :: "pyval \<Rightarrow> exn + pyval list" where
  "py_iter (PList xs) = Inr xs"
| "py_iter (PDict kvs) = Inr (map (\<lambda>kv. PStr (fst kv)) kvs)"
| "py_iter (PStr s) = Inr (map (\<lambda>c. PStr [c]) s)"
| "py_iter v = Inl TypeError"

text \<open>
  \<^verbatim>\<open>int(v)\<close>: an integer is itself, a boolean is 0 or 1, a finite float is truncated
  towards zero, an infinity raises OverflowError and a NaN ValueError. What \<^verbatim>\<open>int\<close>
  accepts as the text of a number depends on the interpreter (Unicode digits and spaces,
  the limit on the number of digits), so the parser is a parameter. Every other value
  raises TypeError.
\<close>

definition truncate_rat :: "rat \<Rightarrow> int" where
  "truncate_rat r = (if 0 \<le> r then \<lfloor>r\<rfloor> else \<lceil>r\<rceil>)"

fun py_int :: "(string \<Rightarrow> exn + int) \<Rightarrow> pyval \<Rightarrow> exn + int" where
  "py_int parse (PInt n) = Inr n"
| "py_int parse (PBool b) = Inr (if b then 1 else 0)"
| "py_int parse (PFloat (Finite r)) = Inr (truncate_rat r)"
| "py_int parse (PFloat (Infinity s)) = Inl OverflowError"
| "py_int parse (PFloat NaN) = Inl ValueError"
| "py_int parse (PStr s) = parse s"
| "py_int parse v = Inl TypeError"

section \<open>Formatting numbers\<close>

text \<open>The decimal digits of a natural number, and \<^verbatim>\<open>str(n)\<close> of an integer.\<close>

definition digit_char :: "nat \<Rightarrow> char" where
  "digit_char d = ''0123456789'' ! (d mod 10)"

fun digits10 :: "nat \<Rightarrow> string" where
  "digits10 n = (if n < 10 then [digit_char n] else digits10 (n div 10) @ [digit_char (n mod 10)])"

declare digits10.simps [simp del]

definition str_int :: "int \<Rightarrow> string" where
  "str_int n = (if n < 0 then CHR ''-'' # digits10 (nat (- n)) else digits10 (nat n))"

text \<open>
  Turning an integer into text raises ValueError when the interpreter has a limit on the
  number of digits and the integer has more digits than that. This holds for
  \<^verbatim>\<open>str\<close>, for an f-string and for the text of a list or a dictionary that holds
  such an integer; a float, a string, a boolean, a timestamp and \<^verbatim>\<open>None\<close> always
  have a text.
\<close>

definition too_many_digits :: "nat \<Rightarrow> int \<Rightarrow> bool" where
  "too_many_digits maxd n = (0 < maxd \<and> maxd < length (digits10 (nat \<bar>n\<bar>)))"

definition py_str_int :: "nat \<Rightarrow> int \<Rightarrow> exn + string" where
  "py_str_int maxd n = (if too_many_digits maxd n then Inl ValueError else Inr (str_int n))"

fun str_raises :: "nat \<Rightarrow> pyval \<Rightarrow> bool" where
  "str_raises maxd (PInt n) = too_many_digits maxd n"
| "str_raises maxd (PList xs) = list_ex (str_raises maxd) xs"
| "str_raises maxd (PDict kvs) = list_ex (str_raises maxd) (map snd kvs)"
| "str_raises maxd v = False"

text \<open>
  \<^verbatim>\<open>bytes_sum / 1024 / 1024 / 1024\<close> divides a Python integer by an integer, which
  gives the float nearest to the exact quotient (ties to even), or OverflowError when that
  is beyond the largest float; the two further divisions by 1024 are exact, since they
  only change the exponent of a float that is zero or at least \<open>2\<^sup>-\<^sup>1\<^sup>0\<close> in
  magnitude. The nearest float to \<open>n / 1024\<close> is the nearest 53-bit number to \<open>n\<close>,
  divided by 1024.
\<close>

definition round_53 :: "int \<Rightarrow> int" where
  "round_53 n =
     (let a = \<bar>n\<bar> in
      if a < 2 ^ 53 then n
      else
        let e = nat (bitlen a - 53);
            q = a div 2 ^ e;
            r = a mod 2 ^ e;
            half = 2 ^ (e - 1);
            q' = (if r < half then q else if half < r then q + 1
                  else if even q then q else q + 1)
        in sgn n * (q' * 2 ^ e))"

definition true_div_1024 :: "int \<Rightarrow> exn + rat" where
  "true_div_1024 n =
     (let m = round_53 n in
      if 2 ^ 1034 \<le> \<bar>m\<bar> then Inl OverflowError else Inr (of_int m / 1024))"

definition bytes_to_gb :: "int \<Rightarrow> exn + rat" where
  "bytes_to_gb n = bind_exn (true_div_1024 n) (\<lambda>x. Inr (x / 1024 / 1024))"

text \<open>
  The format \<^verbatim>\<open>:.2f\<close> prints the float rounded to two decimals, the exact value
  being rounded and ties going to the even digit, with a minus sign for a negative float.
\<close>

definition round_half_even :: "rat \<Rightarrow> int" where
  "round_half_even x =
     (let f = \<lfloor>x\<rfloor>; d = x - of_int f in
      if d < 1 / 2 then f else if 1 / 2 < d then f + 1
      else if even f then f else f + 1)"

definition format_2f :: "rat \<Rightarrow> string" where
  "format_2f x =
     (let m = nat (round_half_even (\<bar>x\<bar> * 100)) in
      (if x < 0 then ''-'' else '''') @ digits10 (m div 100) @ ''.''
        @ [digit_char (m mod 100 div 10), digit_char (m mod 10)])"

section \<open>The environment and the state of a run\<close>

text \<open>
  Everything outside the program is a parameter: the clock, the local AWS configuration,
  the home directory, and the two services. Each service call takes the state of the
  world \<open>'w\<close> and returns the next one with either the response or the exception the SDK
  raised.
\<close>

record request =
  Namespace :: string
  Dimensions :: "(string \<times> pyval) list"
  MetricName :: string
  StartTime :: int
  EndTime :: int
  Period :: int
  Statistics :: "string list"

record 'w env =
  now :: "'w \<Rightarrow> int \<times> 'w"
  get_metric_statistics :: "request \<Rightarrow> 'w \<Rightarrow> (exn + pyval) \<times> 'w"
  list_buckets :: "'w \<Rightarrow> (exn + pyval) \<times> 'w"
  Session :: "string option \<Rightarrow> string \<Rightarrow> 'w \<Rightarrow> exn + unit"
  expanduser_home :: string
  int_of_str :: "string \<Rightarrow> exn + int"
  int_max_str_digits :: nat

text \<open>
  \<open>now\<close> is \<^verbatim>\<open>datetime.now()\<close> in microseconds; \<open>Session p r w\<close> is
  \<^verbatim>\<open>boto3.Session(profile_name=p, region_name=r)\<close>, which reads the local
  configuration and raises \<open>ProfileNotFound\<close> for a profile that is not there;
  \<open>int_max_str_digits\<close> is the interpreter's limit on the digits of an integer that is
  turned into text (4300 by default since Python 3.11, and 0 for no limit).

  A run carries the world, the service calls issued so far, the records written to the
  logger and what has been printed. \<^verbatim>\<open>PrettyTable\<close> is a library: the table is kept
  as data (field names, alignments, rows) and printing it records the table with its
  title, without the layout of borders and padding. Every \<open>Text\<close> item is one call of
  \<^verbatim>\<open>print\<close>, which adds a newline of its own.
\<close>

datatype api_call = GetMetricStatistics request | ListBuckets

record pretty_table =
  field_names :: "string list"
  align :: "(string \<times> string) list"
  rows :: "(pyval \<times> pyval \<times> pyval) list"

datatype out_item = Text string | Table string pretty_table

record 'w state =
  world :: 'w
  calls :: "api_call list"
  logged :: "string list"
  stdout :: "out_item list"

type_synonym ('w, 'a) run = "'w state \<Rightarrow> (exn + 'a) \<times> 'w state"

definition bindS :: "('w, 'a) run \<Rightarrow> ('a \<Rightarrow> ('w, 'b) run) \<Rightarrow> ('w, 'b) run" where
  "bindS m f st = (case m st of (Inl e, st') \<Rightarrow> (Inl e, st') | (Inr x, st') \<Rightarrow> f x st')"

definition liftS :: "exn + 'a \<Rightarrow> ('w, 'a) run" where
  "liftS r st = (r, st)"

definition print :: "out_item \<Rightarrow> ('w, unit) run" where
  "print x st = (Inr (), st\<lparr>stdout := stdout st @ [x]\<rparr>)"

text \<open>
  The exit status of the process (POSIX): 0 when the command returns, the low byte of the
  code for \<^verbatim>\<open>sys.exit(code)\<close>, and 1 for any other exception, which nothing in the
  program catches.
\<close>

fun exit_status :: "exn + 'a \<Rightarrow> int" where
  "exit_status (Inr u) = 0"
| "exit_status (Inl (SystemExit code)) = code mod 256"
| "exit_status (Inl e) = 1"

section \<open>AwsSession\<close>

text \<open>
  \<^verbatim>\<open>
  def __init__(self, profile: str, region='ap-southeast-2', authentication='sso') -> None:
      self._instance_logger = LOGGER.getChild(str(id(self)))
      self.profile = profile
      self.region = region
      if authentication == 'sso' or authentication == 'cli':
          self.authentication = authentication
      else:
          self._instance_logger.error(
              'Allowed values for authentication variable are sso or cli.'
          )
          sys.exit(-1)
  \<close>
\<close>

record aws_session =
  profile :: "string option"
  region :: string
  authentication :: string

definition logger_error :: "string \<Rightarrow> ('w, unit) run" where
  "logger_error msg st = (Inr (), st\<lparr>logged := logged st @ [msg]\<rparr>)"

definition sys_exit :: "int \<Rightarrow> ('w, 'a) run" where
  "sys_exit code st = (Inl (SystemExit code), st)"

definition AwsSession_init :: "string option \<Rightarrow> string \<Rightarrow> string \<Rightarrow> ('w, aws_session) run" where
  "AwsSession_init prof reg auth =
     (if auth = ''sso'' \<or> auth = ''cli''
      then liftS (Inr \<lparr>profile = prof, region = reg, authentication = auth\<rparr>)
      else bindS (logger_error ''Allowed values for authentication variable are sso or cli.'')
             (\<lambda>u. sys_exit (- 1)))"

text \<open>
  \<^verbatim>\<open>
  def cli(self):
      cache = f".aws/{self.authentication}/cache"
      cli_cache = os.path.join(os.path.expanduser('~'), cache)
      cli_session = None
      try:
          cli_session = Session(profile_name=self.profile, region_name=self.region)
      except ProfileNotFound as e:
          self._instance_logger(e)
          sys.exit(-1)
      cli_session._session.get_component('credential_provider'
          ).get_provider('assume-role').cache = JSONFileCache(cli_cache)
      return cli_session
  \<close>
  The handler calls the logger object itself. \<^verbatim>\<open>self._instance_logger\<close> is a
  \<^verbatim>\<open>logging.Logger\<close>, which is not callable, so the call raises TypeError and the
  statement after it is not reached. The session that is returned is recorded with the
  directory of its credential cache.
\<close>

record boto_session =
  profile_name :: "string option"
  region_name :: string
  assume_role_cache :: string

definition path_join :: "string \<Rightarrow> string \<Rightarrow> string" where
  "path_join a b = (if a = [] \<or> last a = CHR ''/'' then a @ b else a @ ''/'' @ b)"

definition logger_call :: "exn \<Rightarrow> ('w, unit) run" where
  "logger_call e st = (Inl TypeError, st)"

fun is_ProfileNotFound :: "exn \<Rightarrow> bool" where
  "is_ProfileNotFound (ProfileNotFound p) = True"
| "is_ProfileNotFound e = False"

definition cli :: "'w env \<Rightarrow> aws_session \<Rightarrow> ('w, boto_session) run" where
  "cli env self st =
     (let cache = ''.aws/'' @ authentication self @ ''/cache'';
          cli_cache = path_join (expanduser_home env) cache
      in case Session env (profile self) (region self) (world st) of
           Inl e \<Rightarrow>
             (if is_ProfileNotFound e
              then bindS (logger_call e) (\<lambda>u. sys_exit (- 1)) st
              else (Inl e, st))
         | Inr u \<Rightarrow>
             (Inr \<lparr>profile_name = profile self, region_name = region self,
                   assume_role_cache = cli_cache\<rparr>, st))"

section \<open>CwMetric\<close>

text \<open>
  \<^verbatim>\<open>
  def get_s3_metric(self, bucket: str, metric: str, stg_type: str, statistic='Sum') -> dict:
      result = self.client.get_metric_statistics(
          Namespace="AWS/S3",
          Dimensions=[{"Name": "BucketName", "Value": bucket},
                      {"Name": "StorageType", "Value": stg_type}],
          MetricName=metric,
          StartTime=datetime.now() - timedelta(2),
          EndTime=datetime.now(),
          Period=86400,
          Statistics=[statistic],
      )
      try:
          return {
              'Value': result["Datapoints"][0][statistic],
              'Unit': result['Datapoints'][0]['Unit']
          }
      except:
          return {
              'Value': 0,
              'Unit': None
          }
  \<close>
  The request is built first (two readings of the clock), then sent; the call is outside
  the \<^verbatim>\<open>try\<close>, whose body only reads the response.
\<close>

record metric_sample =
  Value :: pyval
  Unit :: pyval

definition metric_request ::
  "'w env \<Rightarrow> pyval \<Rightarrow> string \<Rightarrow> string \<Rightarrow> string \<Rightarrow> 'w \<Rightarrow> request \<times> 'w" where
  "metric_request env bucket metric stg_type statistic w =
     (case now env w of (t1, w1) \<Rightarrow>
      (case now env w1 of (t2, w2) \<Rightarrow>
        (\<lparr>Namespace = ''AWS/S3'',
          Dimensions = [(''BucketName'', bucket), (''StorageType'', PStr stg_type)],
          MetricName = metric,
          StartTime = t1 - 2 * 86400 * 1000000,
          EndTime = t2,
          Period = 86400,
          Statistics = [statistic]\<rparr>, w2)))"

definition first_datapoint :: "pyval \<Rightarrow> string \<Rightarrow> exn + metric_sample" where
  "first_datapoint result statistic =
     bind_exn (getitem_key result ''Datapoints'') (\<lambda>dps.
     bind_exn (getitem_0 dps) (\<lambda>dp.
     bind_exn (getitem_key dp statistic) (\<lambda>v.
     bind_exn (getitem_key result ''Datapoints'') (\<lambda>dps'.
     bind_exn (getitem_0 dps') (\<lambda>dp'.
     bind_exn (getitem_key dp' ''Unit'') (\<lambda>u.
       Inr \<lparr>Value = v, Unit = u\<rparr>))))))"

definition get_s3_metric ::
  "'w env \<Rightarrow> pyval \<Rightarrow> string \<Rightarrow> string \<Rightarrow> string \<Rightarrow> ('w, metric_sample) run" where
  "get_s3_metric env bucket metric stg_type statistic st =
     (case metric_request env bucket metric stg_type statistic (world st) of (rq, w2) \<Rightarrow>
       (case get_metric_statistics env rq w2 of (res, w3) \<Rightarrow>
         (let st' = st\<lparr>world := w3, calls := calls st @ [GetMetricStatistics rq]\<rparr> in
           (case res of
              Inl e \<Rightarrow> (Inl e, st')
            | Inr result \<Rightarrow>
                (case first_datapoint result statistic of
                   Inr sample \<Rightarrow> (Inr sample, st')
                 | Inl e \<Rightarrow> (Inr \<lparr>Value = PInt 0, Unit = PNone\<rparr>, st'))))))"

text \<open>
  \<^verbatim>\<open>
  def get_bucket_size(self, bucket: str) -> dict:
      return self.get_s3_metric(bucket, 'BucketSizeBytes', 'StandardStorage')

  def get_bucket_object_count(self, bucket: str) -> dict:
      return self.get_s3_metric(bucket, 'NumberOfObjects', 'AllStorageTypes')
  \<close>
\<close>

definition get_bucket_size :: "'w env \<Rightarrow> pyval \<Rightarrow> ('w, metric_sample) run" where
  "get_bucket_size env bucket = get_s3_metric env bucket ''BucketSizeBytes'' ''StandardStorage'' ''Sum''"

definition get_bucket_object_count :: "'w env \<Rightarrow> pyval \<Rightarrow> ('w, metric_sample) run" where
  "get_bucket_object_count env bucket =
     get_s3_metric env bucket ''NumberOfObjects'' ''AllStorageTypes'' ''Sum''"

section \<open>The command\<close>

text \<open>
  \<^verbatim>\<open>
  def query_bucket(profile: str, bucket: str) -> None:
      session = AwsSession(profile).cli()
      cw_client = session.client('cloudwatch')
      cw = CwMetric(cw_client)

      if bucket:
          buckets = [bucket]
      else:
          s3_client = session.client('s3')
          s3_buckets = s3_client.list_buckets()
          buckets = []
          for b in s3_buckets['Buckets']:
              buckets.append(b['Name'])

      bytes_sum = 0
      count_sum = 0
      pt = PrettyTable(('Bucket name', 'Size [Bytes]', 'Object count'))

      for b in buckets:
          pt.align['Bucket name'] = 'l'
          pt.align['Size [Bytes]'] = 'r'
          pt.align['Object count'] = 'r'
          pt.add_row(
              (
                  b,
                  cw.get_bucket_size(b)['Value'],
                  cw.get_bucket_object_count(b)['Value']
              )
          )
          bytes_sum += int(cw.get_bucket_size(b)['Value'])
          count_sum += int(cw.get_bucket_object_count(b)['Value'])

      print("\n")
      print(pt.get_string(title='S3 bucket metrics'))
      print("\nGrand total:\n")
      print(f"Storage space used (GB).: {bytes_sum / 1024 / 1024 / 1024:.2f}")
      print(f"Objects count...........: {count_sum}")
  \<close>
  The command is modelled in the four parts it has: the session, the choice of the
  buckets, the loop over them and the printing. The two clients are the functions of the
  environment. The option \<^verbatim>\<open>--bucket\<close> is absent (\<open>None\<close>) or a string, and
  \<^verbatim>\<open>if bucket\<close> holds for a string that is not empty.
\<close>

fun names_of :: "pyval list \<Rightarrow> pyval list \<Rightarrow> exn + pyval list" where
  "names_of [] buckets = Inr buckets"
| "names_of (b # bs) buckets =
     bind_exn (getitem_key b ''Name'') (\<lambda>name. names_of bs (buckets @ [name]))"

definition all_buckets :: "'w env \<Rightarrow> ('w, pyval list) run" where
  "all_buckets env st =
     (case list_buckets env (world st) of (res, w') \<Rightarrow>
       (let st' = st\<lparr>world := w', calls := calls st @ [ListBuckets]\<rparr> in
         (case res of
            Inl e \<Rightarrow> (Inl e, st')
          | Inr s3_buckets \<Rightarrow>
              (bind_exn (getitem_key s3_buckets ''Buckets'') (\<lambda>listing.
               bind_exn (py_iter listing) (\<lambda>bs. names_of bs [])), st'))))"

fun truthy :: "string option \<Rightarrow> bool" where
  "truthy None = False"
| "truthy (Some s) = (s \<noteq> [])"

definition select_buckets :: "'w env \<Rightarrow> string option \<Rightarrow> ('w, pyval list) run" where
  "select_buckets env bucket =
     (if truthy bucket then liftS (Inr [PStr (the bucket)]) else all_buckets env)"

definition PrettyTable :: "string list \<Rightarrow> pretty_table" where
  "PrettyTable names =
     \<lparr>field_names = names, align = map (\<lambda>f. (f, ''c'')) names, rows = []\<rparr>"

definition set_align :: "string \<Rightarrow> string \<Rightarrow> pretty_table \<Rightarrow> pretty_table" where
  "set_align field a pt = pt\<lparr>align := AList.update field a (align pt)\<rparr>"

definition add_row :: "pyval \<times> pyval \<times> pyval \<Rightarrow> pretty_table \<Rightarrow> pretty_table" where
  "add_row row pt = pt\<lparr>rows := rows pt @ [row]\<rparr>"

text \<open>One pass of the loop body, on the table and the two running sums.\<close>

definition loop_body ::
  "'w env \<Rightarrow> pyval \<Rightarrow> pretty_table \<times> int \<times> int \<Rightarrow> ('w, pretty_table \<times> int \<times> int) run" where
  "loop_body env b acc =
     (case acc of (pt, bytes_sum, count_sum) \<Rightarrow>
       (let pt1 = set_align ''Object count'' ''r''
                    (set_align ''Size [Bytes]'' ''r'' (set_align ''Bucket name'' ''l'' pt))
        in
          bindS (get_bucket_size env b) (\<lambda>size1.
          bindS (get_bucket_object_count env b) (\<lambda>count1.
            (let pt2 = add_row (b, Value size1, Value count1) pt1 in
              bindS (get_bucket_size env b) (\<lambda>size2.
              bindS (liftS (py_int (int_of_str env) (Value size2))) (\<lambda>i.
              bindS (get_bucket_object_count env b) (\<lambda>count2.
              bindS (liftS (py_int (int_of_str env) (Value count2))) (\<lambda>j.
                liftS (Inr (pt2, bytes_sum + i, count_sum + j)))))))))))"

fun report_loop ::
  "'w env \<Rightarrow> pyval list \<Rightarrow> pretty_table \<times> int \<times> int \<Rightarrow> ('w, pretty_table \<times> int \<times> int) run" where
  "report_loop env [] acc st = (Inr acc, st)"
| "report_loop env (b # bs) acc st =
     (case loop_body env b acc st of
        (Inl e, st') \<Rightarrow> (Inl e, st')
      | (Inr acc', st') \<Rightarrow> report_loop env bs acc' st')"

text \<open>
  \<^verbatim>\<open>pt.get_string(title=...)\<close> turns every cell of every row into text, so it
  raises when one of them cannot be; otherwise it gives the table, which is recorded with
  its title.
\<close>

definition get_string :: "nat \<Rightarrow> string \<Rightarrow> pretty_table \<Rightarrow> exn + out_item" where
  "get_string maxd title pt =
     (if list_ex (\<lambda>row. case row of (b, s, c) \<Rightarrow>
                    str_raises maxd b \<or> str_raises maxd s \<or> str_raises maxd c) (rows pt)
      then Inl ValueError else Inr (Table title pt))"

text \<open>
  The five prints, in order. Each argument is computed just before its print, so what was
  printed before an exception stays printed.
\<close>

definition print_report :: "'w env \<Rightarrow> pretty_table \<times> int \<times> int \<Rightarrow> ('w, unit) run" where
  "print_report env acc =
     (case acc of (pt, bytes_sum, count_sum) \<Rightarrow>
        bindS (print (Text [CHR 0x0A])) (\<lambda>u1.
        bindS (liftS (get_string (int_max_str_digits env) ''S3 bucket metrics'' pt)) (\<lambda>table.
        bindS (print table) (\<lambda>u2.
        bindS (print (Text (CHR 0x0A # ''Grand total:'' @ [CHR 0x0A]))) (\<lambda>u3.
        bindS (liftS (bytes_to_gb bytes_sum)) (\<lambda>gb.
        bindS (print (Text (''Storage space used (GB).: '' @ format_2f gb))) (\<lambda>u4.
        bindS (liftS (py_str_int (int_max_str_digits env) count_sum)) (\<lambda>n.
          print (Text (''Objects count...........: '' @ n))))))))))"

definition report :: "'w env \<Rightarrow> pyval list \<Rightarrow> ('w, unit) run" where
  "report env buckets =
     bindS (report_loop env buckets
              (PrettyTable [''Bucket name'', ''Size [Bytes]'', ''Object count''], 0, 0))
       (print_report env)"

definition query_bucket :: "'w env \<Rightarrow> string option \<Rightarrow> string option \<Rightarrow> ('w, unit) run" where
  "query_bucket env prof bucket =
     bindS (AwsSession_init prof ''ap-southeast-2'' ''sso'') (\<lambda>self.
     bindS (cli env self) (\<lambda>session.
     bindS (select_buckets env bucket) (\<lambda>buckets.
       report env buckets)))"

text \<open>
  What a service call asked for: the bucket and the metric of a metrics query, nothing
  for a listing.
\<close>

fun fetch_of :: "api_call \<Rightarrow> (pyval \<times> string) option" where
  "fetch_of (GetMetricStatistics rq) =
     (case map_of (Dimensions rq) ''BucketName'' of
        None \<Rightarrow> None
      | Some b \<Rightarrow> Some (b, MetricName rq))"
| "fetch_of ListBuckets = None"

section \<open>An example account\<close>

text \<open>
  An account with the buckets \<open>a\<close> and \<open>b\<close> in its listing, of 1024 and 2048 bytes
  and 5 and 10 objects, and a bucket \<open>c\<close> whose size metric is the fraction 10.75; any
  other bucket has no data points. The clock is the world and ticks at every reading. The
  profile \<open>missing\<close> is not in the local configuration.
\<close>

fun example_metrics :: "pyval \<Rightarrow> (rat \<times> rat) option" where
  "example_metrics b =
     (if b = PStr ''a'' then Some (1024, 5)
      else if b = PStr ''b'' then Some (2048, 10)
      else if b = PStr ''c'' then Some (43 / 4, 3)
      else None)"

definition example_cloudwatch :: "request \<Rightarrow> int \<Rightarrow> (exn + pyval) \<times> int" where
  "example_cloudwatch rq w =
     (let size = (MetricName rq = ''BucketSizeBytes'');
          points =
            (case map_of (Dimensions rq) ''BucketName'' of
               None \<Rightarrow> []
             | Some b \<Rightarrow>
                 (case example_metrics b of
                    None \<Rightarrow> []
                  | Some (s, c) \<Rightarrow>
                      [PDict [(''Timestamp'', PDatetime (StartTime rq)),
                              (''Sum'', PFloat (Finite (if size then s else c))),
                              (''Unit'', PStr (if size then ''Bytes'' else ''Count''))]]))
      in (Inr (PDict [(''Label'', PStr (MetricName rq)), (''Datapoints'', PList points)]), w))"

definition example_s3 :: "int \<Rightarrow> (exn + pyval) \<times> int" where
  "example_s3 w =
     (Inr (PDict [(''Buckets'', PList [PDict [(''Name'', PStr ''a'')],
                                       PDict [(''Name'', PStr ''b'')]]),
                  (''Owner'', PDict [(''ID'', PStr ''0'')])]), w)"

definition example_config :: "string option \<Rightarrow> string \<Rightarrow> int \<Rightarrow> exn + unit" where
  "example_config p r w =
     (if p = Some ''missing'' then Inl (ProfileNotFound ''missing'') else Inr ())"

definition example_env :: "int env" where
  "example_env =
     \<lparr>now = (\<lambda>w. (w, w + 1)),
      get_metric_statistics = example_cloudwatch,
      list_buckets = example_s3,
      Session = example_config,
      expanduser_home = ''/home/user'',
      int_of_str = (\<lambda>s. Inl ValueError),
      int_max_str_digits = 4300\<rparr>"

text \<open>The same account when the monitoring service cannot be reached.\<close>

definition unreachable_env :: "int env" where
  "unreachable_env =
     example_env\<lparr>get_metric_statistics :=
       (\<lambda>rq w. (Inl (ApiError ''EndpointConnectionError''), w))\<rparr>"

definition start :: "int state" where
  "start = \<lparr>world = 0, calls = [], logged = [], stdout = []\<rparr>"

text \<open>
  What the gateway answers for a bucket of the example account, and what \<^verbatim>\<open>int\<close>
  makes of the two values.
\<close>

definition example_size :: "pyval \<Rightarrow> metric_sample" where
  "example_size b =
     (case example_metrics b of
        None \<Rightarrow> \<lparr>Value = PInt 0, Unit = PNone\<rparr>
      | Some (s, c) \<Rightarrow> \<lparr>Value = PFloat (Finite s), Unit = PStr ''Bytes''\<rparr>)"

definition example_count :: "pyval \<Rightarrow> metric_sample" where
  "example_count b =
     (case example_metrics b of
        None \<Rightarrow> \<lparr>Value = PInt 0, Unit = PNone\<rparr>
      | Some (s, c) \<Rightarrow> \<lparr>Value = PFloat (Finite c), Unit = PStr ''Count''\<rparr>)"

definition example_bytes :: "pyval \<Rightarrow> int" where
  "example_bytes b = (case example_metrics b of None \<Rightarrow> 0 | Some (s, c) \<Rightarrow> truncate_rat s)"

definition example_objects :: "pyval \<Rightarrow> int" where
  "example_objects b = (case example_metrics b of None \<Rightarrow> 0 | Some (s, c) \<Rightarrow> truncate_rat c)"






section \<open>Reading the printed numbers\<close>






text \<open>
  The five items a completed report prints, for a table and the texts of the two totals;
  and the four queries one pass of the loop sends for a bucket.
\<close>

abbreviation report_output :: "pretty_table \<Rightarrow> string \<Rightarrow> string \<Rightarrow> out_item list" where
  "report_output pt gb n \<equiv>
     [Text [CHR 0x0A],
      Table ''S3 bucket metrics'' pt,
      Text (CHR 0x0A # ''Grand total:'' @ [CHR 0x0A]),
      Text (''Storage space used (GB).: '' @ gb),
      Text (''Objects count...........: '' @ n)]"

abbreviation fetches_of_bucket :: "pyval \<Rightarrow> (pyval \<times> string) option list" where
  "fetches_of_bucket b \<equiv>
     [Some (b, ''BucketSizeBytes''), Some (b, ''NumberOfObjects''),
      Some (b, ''BucketSizeBytes''), Some (b, ''NumberOfObjects'')]"

section \<open>Basic facts\<close>

lemma bindS_Inr:
  "bindS m f st = (Inr y, st'') \<Longrightarrow> \<exists>x st'. m st = (Inr x, st') \<and> f x st' = (Inr y, st'')"
  by (auto simp: bindS_def split: prod.splits sum.splits)

lemma get_s3_metric_effect:
  assumes "get_s3_metric env b m s stat st = (r, st')"
  shows "stdout st' = stdout st \<and> logged st' = logged st \<and>
         (\<exists>rq. calls st' = calls st @ [GetMetricStatistics rq] \<and> MetricName rq = m \<and>
               map_of (Dimensions rq) ''BucketName'' = Some b)"
  using assms
  by (auto simp: get_s3_metric_def metric_request_def Let_def split: prod.splits sum.splits)

lemma example_request:
  "metric_request example_env b m s stat w =
     (\<lparr>Namespace = ''AWS/S3'', Dimensions = [(''BucketName'', b), (''StorageType'', PStr s)],
       MetricName = m, StartTime = w - 172800000000, EndTime = w + 1, Period = 86400,
       Statistics = [stat]\<rparr>, w + 2)"
  by (simp add: metric_request_def example_env_def)

section \<open>The session provider\<close>

text \<open>
  Claim C4. For every authentication mode other than \<open>sso\<close> and \<open>cli\<close>, constructing the
  session provider logs the error and raises \<open>SystemExit (-1)\<close>, so the process ends with
  a status that is not zero, and no service call has been made; for \<open>sso\<close> and \<open>cli\<close>
  the constructor returns the object with its three attributes and changes nothing.
\<close>

theorem AwsSession_init_authentication:
  "(auth \<notin> {''sso'', ''cli''} \<longrightarrow>
      AwsSession_init prof reg auth st =
        (Inl (SystemExit (- 1)),
         st\<lparr>logged := logged st @
              [''Allowed values for authentication variable are sso or cli.'']\<rparr>)
      \<and> exit_status (fst (AwsSession_init prof reg auth st)) \<noteq> 0
      \<and> calls (snd (AwsSession_init prof reg auth st)) = calls st)
   \<and> (auth \<in> {''sso'', ''cli''} \<longrightarrow>
      AwsSession_init prof reg auth st =
        (Inr \<lparr>profile = prof, region = reg, authentication = auth\<rparr>, st))"
  by (simp add: AwsSession_init_def bindS_def logger_error_def sys_exit_def liftS_def)

theorem AwsSession_init_authentication_witness:
  "''ldap'' \<notin> {''sso'', ''cli''} \<and>
   AwsSession_init (Some ''dev'') ''ap-southeast-2'' ''ldap'' start =
     (Inl (SystemExit (- 1)),
      \<lparr>world = 0, calls = [],
       logged = [''Allowed values for authentication variable are sso or cli.''],
       stdout = []\<rparr>) \<and>
   ''cli'' \<in> {''sso'', ''cli''} \<and>
   AwsSession_init (Some ''dev'') ''ap-southeast-2'' ''cli'' start =
     (Inr \<lparr>profile = Some ''dev'', region = ''ap-southeast-2'', authentication = ''cli''\<rparr>,
      start)"
  using AwsSession_init_authentication [of "''ldap''" "Some ''dev''" "''ap-southeast-2''" start]
        AwsSession_init_authentication [of "''cli''" "Some ''dev''" "''ap-southeast-2''" start]
  by (simp add: start_def)

text \<open>
  Claim C3. A profile that is not in the local configuration should be logged and end the
  process through \<^verbatim>\<open>sys.exit(-1)\<close>. The code does neither: for the profile \<open>missing\<close>
  of the example account the handler raises TypeError, nothing is logged, and the command
  ends with that exception, before any service call.
\<close>

theorem cli_profile_not_found:
  "cli example_env
     \<lparr>profile = Some ''missing'', region = ''ap-southeast-2'', authentication = ''sso''\<rparr> start
     = (Inl TypeError, start) \<and>
   query_bucket example_env (Some ''missing'') None start = (Inl TypeError, start)"
  by (simp add: query_bucket_def AwsSession_init_def cli_def example_env_def example_config_def
        bindS_def logger_call_def liftS_def)

section \<open>The metrics gateway\<close>

text \<open>
  Claim C5. When the response of the monitoring query holds a single data point with the
  value \<open>V\<close> under the statistic and the unit \<open>U\<close>, \<open>get_s3_metric\<close> returns exactly
  \<open>V\<close> and \<open>U\<close>, unchanged.
\<close>

theorem get_s3_metric_single_datapoint:
  assumes "metric_request env bucket metric stg_type statistic (world st) = (rq, w)"
      and "fst (get_metric_statistics env rq w) = Inr (PDict kvs)"
      and "map_of kvs ''Datapoints'' = Some (PList [PDict dp])"
      and "map_of dp statistic = Some V"
      and "map_of dp ''Unit'' = Some U"
  shows "fst (get_s3_metric env bucket metric stg_type statistic st)
           = Inr \<lparr>Value = V, Unit = U\<rparr>"
  using assms
  by (auto simp: get_s3_metric_def first_datapoint_def bind_exn_def Let_def split: prod.splits)

theorem get_s3_metric_single_datapoint_witness:
  "fst (get_s3_metric example_env (PStr ''a'') ''BucketSizeBytes'' ''StandardStorage'' ''Sum'' start)
     = Inr \<lparr>Value = PFloat (Finite 1024), Unit = PStr ''Bytes''\<rparr>"
proof -
  let ?rq = "\<lparr>Namespace = ''AWS/S3'',
              Dimensions = [(''BucketName'', PStr ''a''),
                            (''StorageType'', PStr ''StandardStorage'')],
              MetricName = ''BucketSizeBytes'', StartTime = - 172800000000, EndTime = 1,
              Period = 86400, Statistics = [''Sum'']\<rparr>"
  let ?dp = "[(''Timestamp'', PDatetime (- 172800000000)), (''Sum'', PFloat (Finite 1024)),
              (''Unit'', PStr ''Bytes'')]"
  let ?kvs = "[(''Label'', PStr ''BucketSizeBytes''), (''Datapoints'', PList [PDict ?dp])]"
  have rq: "metric_request example_env (PStr ''a'') ''BucketSizeBytes'' ''StandardStorage''
              ''Sum'' (world start) = (?rq, 2)"
    by (simp add: example_request start_def)
  have resp: "fst (get_metric_statistics example_env ?rq 2) = Inr (PDict ?kvs)"
    by (simp add: example_env_def example_cloudwatch_def)
  show ?thesis
    by (rule get_s3_metric_single_datapoint [OF rq resp, of ?dp]) simp_all
qed

text \<open>
  Claim C1, as the code has it. Whenever the monitoring query returns a response,
  \<open>get_s3_metric\<close> returns a sample and raises nothing; whenever the first data point
  cannot be read from the response (an empty result set, a malformed response), the
  sample is the fallback of value 0 and no unit. An error raised by the query itself is
  outside the \<^verbatim>\<open>try\<close> and reaches the caller.
\<close>

theorem get_s3_metric_fallback:
  assumes "metric_request env bucket metric stg_type statistic (world st) = (rq, w)"
  shows "(\<forall>result. fst (get_metric_statistics env rq w) = Inr result \<longrightarrow>
            (\<exists>sample. fst (get_s3_metric env bucket metric stg_type statistic st) = Inr sample) \<and>
            (\<forall>e. first_datapoint result statistic = Inl e \<longrightarrow>
               fst (get_s3_metric env bucket metric stg_type statistic st)
                 = Inr \<lparr>Value = PInt 0, Unit = PNone\<rparr>) \<and>
            (\<forall>kvs. result = PDict kvs \<and> map_of kvs ''Datapoints'' = Some (PList []) \<longrightarrow>
               fst (get_s3_metric env bucket metric stg_type statistic st)
                 = Inr \<lparr>Value = PInt 0, Unit = PNone\<rparr>))
       \<and> (\<forall>e. fst (get_metric_statistics env rq w) = Inl e \<longrightarrow>
            fst (get_s3_metric env bucket metric stg_type statistic st) = Inl e)"
  using assms
  by (auto simp: get_s3_metric_def first_datapoint_def bind_exn_def Let_def
           split: prod.splits sum.splits)

theorem get_s3_metric_fallback_witness:
  "fst (get_s3_metric example_env (PStr ''zz'') ''NumberOfObjects'' ''AllStorageTypes'' ''Sum'' start)
     = Inr \<lparr>Value = PInt 0, Unit = PNone\<rparr>"
proof -
  let ?rq = "\<lparr>Namespace = ''AWS/S3'',
              Dimensions = [(''BucketName'', PStr ''zz''),
                            (''StorageType'', PStr ''AllStorageTypes'')],
              MetricName = ''NumberOfObjects'', StartTime = - 172800000000, EndTime = 1,
              Period = 86400, Statistics = [''Sum'']\<rparr>"
  let ?kvs = "[(''Label'', PStr ''NumberOfObjects''), (''Datapoints'', PList [])]"
  have rq: "metric_request example_env (PStr ''zz'') ''NumberOfObjects'' ''AllStorageTypes''
              ''Sum'' (world start) = (?rq, 2)"
    by (simp add: example_request start_def)
  have resp: "fst (get_metric_statistics example_env ?rq 2) = Inr (PDict ?kvs)"
    by (simp add: example_env_def example_cloudwatch_def)
  from get_s3_metric_fallback [OF rq] resp show ?thesis
    by simp
qed

theorem get_s3_metric_propagates_counterexample:
  "fst (get_s3_metric unreachable_env (PStr ''a'') ''BucketSizeBytes'' ''StandardStorage'' ''Sum''
          start)
     = Inl (ApiError ''EndpointConnectionError'')"
  by (simp add: get_s3_metric_def metric_request_def unreachable_env_def example_env_def
        start_def)

section \<open>The report loop\<close>

lemma get_bucket_size_effect:
  assumes "get_bucket_size env b st = (r, st')"
  shows "stdout st' = stdout st \<and> logged st' = logged st \<and>
         (\<exists>c. calls st' = calls st @ [c] \<and> fetch_of c = Some (b, ''BucketSizeBytes''))"
  using get_s3_metric_effect [OF assms [unfolded get_bucket_size_def]] by auto

lemma get_bucket_object_count_effect:
  assumes "get_bucket_object_count env b st = (r, st')"
  shows "stdout st' = stdout st \<and> logged st' = logged st \<and>
         (\<exists>c. calls st' = calls st @ [c] \<and> fetch_of c = Some (b, ''NumberOfObjects''))"
  using get_s3_metric_effect [OF assms [unfolded get_bucket_object_count_def]] by auto

lemma loop_body_Inr:
  assumes "loop_body env b (pt, bytes_sum, count_sum) st = (Inr acc', st')"
  shows "\<exists>size1 count1 size2 count2 i j st1 st2 st3.
           get_bucket_size env b st = (Inr size1, st1) \<and>
           get_bucket_object_count env b st1 = (Inr count1, st2) \<and>
           get_bucket_size env b st2 = (Inr size2, st3) \<and>
           get_bucket_object_count env b st3 = (Inr count2, st') \<and>
           py_int (int_of_str env) (Value size2) = Inr i \<and>
           py_int (int_of_str env) (Value count2) = Inr j \<and>
           acc' = (add_row (b, Value size1, Value count1)
                     (set_align ''Object count'' ''r''
                       (set_align ''Size [Bytes]'' ''r'' (set_align ''Bucket name'' ''l'' pt))),
                   bytes_sum + i, count_sum + j)"
  using assms unfolding loop_body_def
  by (auto simp: Let_def liftS_def dest!: bindS_Inr)

lemma loop_body_effect:
  assumes "loop_body env b (pt, bytes_sum, count_sum) st = (Inr (pt', bytes_sum', count_sum'), st')"
  shows "(\<exists>v c. rows pt' = rows pt @ [(b, v, c)]) \<and>
         field_names pt' = field_names pt \<and>
         align pt' = AList.update ''Object count'' ''r''
                       (AList.update ''Size [Bytes]'' ''r''
                         (AList.update ''Bucket name'' ''l'' (align pt))) \<and>
         stdout st' = stdout st \<and> logged st' = logged st \<and>
         (\<exists>new. calls st' = calls st @ new \<and> map fetch_of new = fetches_of_bucket b)"
proof -
  from loop_body_Inr [OF assms] obtain size1 count1 size2 count2 i j st1 st2 st3 where
    s1: "get_bucket_size env b st = (Inr size1, st1)" and
    c1: "get_bucket_object_count env b st1 = (Inr count1, st2)" and
    s2: "get_bucket_size env b st2 = (Inr size2, st3)" and
    c2: "get_bucket_object_count env b st3 = (Inr count2, st')" and
    acc: "(pt', bytes_sum', count_sum') = (add_row (b, Value size1, Value count1)
                     (set_align ''Object count'' ''r''
                       (set_align ''Size [Bytes]'' ''r'' (set_align ''Bucket name'' ''l'' pt))),
                   bytes_sum + i, count_sum + j)"
    by blast
  from acc have "rows pt' = rows pt @ [(b, Value size1, Value count1)]"
    and "field_names pt' = field_names pt"
    and "align pt' = AList.update ''Object count'' ''r''
                       (AList.update ''Size [Bytes]'' ''r''
                         (AList.update ''Bucket name'' ''l'' (align pt)))"
    by (simp_all add: add_row_def set_align_def)
  moreover from get_bucket_size_effect [OF s1] get_bucket_object_count_effect [OF c1]
    get_bucket_size_effect [OF s2] get_bucket_object_count_effect [OF c2]
  have "stdout st' = stdout st \<and> logged st' = logged st \<and>
         (\<exists>new. calls st' = calls st @ new \<and> map fetch_of new = fetches_of_bucket b)"
    by auto
  ultimately show ?thesis by simp
qed

text \<open>
  A completed loop has added one row per bucket, in order, has sent four queries per
  bucket and has printed nothing.
\<close>

lemma report_loop_effect:
  assumes "report_loop env bs (pt, bytes_sum, count_sum) st = (Inr (pt', bytes_sum', count_sum'), st')"
  shows "map fst (rows pt') = map fst (rows pt) @ bs \<and>
         field_names pt' = field_names pt \<and>
         stdout st' = stdout st \<and> logged st' = logged st \<and>
         (\<exists>new. calls st' = calls st @ new \<and>
                map fetch_of new = concat (map fetches_of_bucket bs))"
  using assms
proof (induction bs arbitrary: pt bytes_sum count_sum st)
  case Nil
  then show ?case by simp
next
  case (Cons b bs)
  from Cons.prems obtain pt1 x1 y1 st1 where
    body: "loop_body env b (pt, bytes_sum, count_sum) st = (Inr (pt1, x1, y1), st1)" and
    rest: "report_loop env bs (pt1, x1, y1) st1 = (Inr (pt', bytes_sum', count_sum'), st')"
    by (auto split: prod.splits sum.splits)
  from loop_body_effect [OF body] obtain new1 v c where
    b1: "rows pt1 = rows pt @ [(b, v, c)]" "field_names pt1 = field_names pt"
        "stdout st1 = stdout st" "logged st1 = logged st"
        "calls st1 = calls st @ new1" "map fetch_of new1 = fetches_of_bucket b"
    by (elim conjE exE) (rule that)
  from Cons.IH [OF rest] obtain new2 where
    b2: "map fst (rows pt') = map fst (rows pt1) @ bs" "field_names pt' = field_names pt1"
        "stdout st' = stdout st1" "logged st' = logged st1"
        "calls st' = calls st1 @ new2" "map fetch_of new2 = concat (map fetches_of_bucket bs)"
    by blast
  have "calls st' = calls st @ (new1 @ new2) \<and>
        map fetch_of (new1 @ new2) = concat (map fetches_of_bucket (b # bs))"
    using b1 b2 by simp
  then have "\<exists>new. calls st' = calls st @ new \<and>
                map fetch_of new = concat (map fetches_of_bucket (b # bs))"
    by blast
  with b1 b2 show ?case by simp
qed

text \<open>The alignments of the table once the loop has run, starting from the new table.\<close>

lemma report_loop_align:
  assumes "report_loop env bs (pt, bytes_sum, count_sum) st = (Inr (pt', bytes_sum', count_sum'), st')"
      and "align pt = [(''Bucket name'', ''c''), (''Size [Bytes]'', ''c''), (''Object count'', ''c'')]
           \<or> align pt = [(''Bucket name'', ''l''), (''Size [Bytes]'', ''r''), (''Object count'', ''r'')]"
  shows "align pt' =
           (if bs = [] then align pt
            else [(''Bucket name'', ''l''), (''Size [Bytes]'', ''r''), (''Object count'', ''r'')])"
  using assms
proof (induction bs arbitrary: pt bytes_sum count_sum st)
  case Nil
  then show ?case by simp
next
  case (Cons b bs)
  from Cons.prems(1) obtain pt1 x1 y1 st1 where
    body: "loop_body env b (pt, bytes_sum, count_sum) st = (Inr (pt1, x1, y1), st1)" and
    rest: "report_loop env bs (pt1, x1, y1) st1 = (Inr (pt', bytes_sum', count_sum'), st')"
    by (auto split: prod.splits sum.splits)
  from loop_body_effect [OF body] Cons.prems(2) have
    a1: "align pt1 = [(''Bucket name'', ''l''), (''Size [Bytes]'', ''r''), (''Object count'', ''r'')]"
    by auto
  from Cons.IH [OF rest] a1 show ?case by simp
qed

lemma stable_step:
  assumes "\<forall>s. fst (m s) = Inr x"
  shows "\<exists>st'. m st = (Inr x, st')"
  using assms by (metis prod.collapse)

lemma loop_body_stable:
  assumes "\<forall>s. fst (get_bucket_size env b s) = Inr sm"
      and "\<forall>s. fst (get_bucket_object_count env b s) = Inr cm"
      and "py_int (int_of_str env) (Value sm) = Inr i"
      and "py_int (int_of_str env) (Value cm) = Inr j"
  shows "\<exists>pt' st'.
           loop_body env b (pt, bytes_sum, count_sum) st
             = (Inr (pt', bytes_sum + i, count_sum + j), st') \<and>
           rows pt' = rows pt @ [(b, Value sm, Value cm)]"
proof -
  obtain st1 where s1: "get_bucket_size env b st = (Inr sm, st1)"
    using stable_step [OF assms(1)] by blast
  obtain st2 where c1: "get_bucket_object_count env b st1 = (Inr cm, st2)"
    using stable_step [OF assms(2)] by blast
  obtain st3 where s2: "get_bucket_size env b st2 = (Inr sm, st3)"
    using stable_step [OF assms(1)] by blast
  obtain st4 where c2: "get_bucket_object_count env b st3 = (Inr cm, st4)"
    using stable_step [OF assms(2)] by blast
  show ?thesis
    by (simp add: loop_body_def bindS_def s1 c1 s2 c2 assms(3,4) liftS_def add_row_def
          set_align_def)
qed

lemma report_loop_stable:
  assumes "\<forall>b\<in>set bs. \<forall>s. fst (get_bucket_size env b s) = Inr (sz b)"
      and "\<forall>b\<in>set bs. \<forall>s. fst (get_bucket_object_count env b s) = Inr (ct b)"
      and "\<forall>b\<in>set bs. py_int (int_of_str env) (Value (sz b)) = Inr (si b)"
      and "\<forall>b\<in>set bs. py_int (int_of_str env) (Value (ct b)) = Inr (ci b)"
  shows "\<exists>pt' st'.
           report_loop env bs (pt, bytes_sum, count_sum) st
             = (Inr (pt', bytes_sum + sum_list (map si bs), count_sum + sum_list (map ci bs)), st') \<and>
           rows pt' = rows pt @ map (\<lambda>b. (b, Value (sz b), Value (ct b))) bs"
  using assms
proof (induction bs arbitrary: pt bytes_sum count_sum st)
  case Nil
  then show ?case by simp
next
  case (Cons b bs)
  from Cons.prems have
    "\<forall>s. fst (get_bucket_size env b s) = Inr (sz b)"
    "\<forall>s. fst (get_bucket_object_count env b s) = Inr (ct b)"
    "py_int (int_of_str env) (Value (sz b)) = Inr (si b)"
    "py_int (int_of_str env) (Value (ct b)) = Inr (ci b)"
    by simp_all
  from loop_body_stable [OF this, of pt bytes_sum count_sum st] obtain pt1 st1 where
    body: "loop_body env b (pt, bytes_sum, count_sum) st
             = (Inr (pt1, bytes_sum + si b, count_sum + ci b), st1)" and
    rows1: "rows pt1 = rows pt @ [(b, Value (sz b), Value (ct b))]"
    by blast
  from Cons.prems have
    "\<forall>b\<in>set bs. \<forall>s. fst (get_bucket_size env b s) = Inr (sz b)"
    "\<forall>b\<in>set bs. \<forall>s. fst (get_bucket_object_count env b s) = Inr (ct b)"
    "\<forall>b\<in>set bs. py_int (int_of_str env) (Value (sz b)) = Inr (si b)"
    "\<forall>b\<in>set bs. py_int (int_of_str env) (Value (ct b)) = Inr (ci b)"
    by simp_all
  from Cons.IH [OF this, of pt1 "bytes_sum + si b" "count_sum + ci b" st1] obtain pt' st' where
    "report_loop env bs (pt1, bytes_sum + si b, count_sum + ci b) st1
       = (Inr (pt', bytes_sum + si b + sum_list (map si bs),
                    count_sum + ci b + sum_list (map ci bs)), st')"
    "rows pt' = rows pt1 @ map (\<lambda>b. (b, Value (sz b), Value (ct b))) bs"
    by blast
  with body rows1 show ?case by (simp add: add.assoc)
qed

text \<open>
  The loop from the new table, when the gateway answers the same sample for a bucket at
  every call and \<^verbatim>\<open>int\<close> accepts the values.
\<close>

lemma report_loop_new_table:
  assumes "\<forall>b\<in>set bs. \<forall>s. fst (get_bucket_size env b s) = Inr (sz b)"
      and "\<forall>b\<in>set bs. \<forall>s. fst (get_bucket_object_count env b s) = Inr (ct b)"
      and "\<forall>b\<in>set bs. py_int (int_of_str env) (Value (sz b)) = Inr (si b)"
      and "\<forall>b\<in>set bs. py_int (int_of_str env) (Value (ct b)) = Inr (ci b)"
  shows "\<exists>st'.
           report_loop env bs
             (PrettyTable [''Bucket name'', ''Size [Bytes]'', ''Object count''], 0, 0) st
             = (Inr (\<lparr>field_names = [''Bucket name'', ''Size [Bytes]'', ''Object count''],
                      align = (if bs = []
                        then [(''Bucket name'', ''c''), (''Size [Bytes]'', ''c''),
                              (''Object count'', ''c'')]
                        else [(''Bucket name'', ''l''), (''Size [Bytes]'', ''r''),
                              (''Object count'', ''r'')]),
                      rows = map (\<lambda>b. (b, Value (sz b), Value (ct b))) bs\<rparr>,
                     sum_list (map si bs), sum_list (map ci bs)), st') \<and>
           stdout st' = stdout st \<and> logged st' = logged st"
proof -
  let ?pt0 = "PrettyTable [''Bucket name'', ''Size [Bytes]'', ''Object count'']"
  from report_loop_stable [OF assms, of ?pt0 0 0 st] obtain pt' st' where
    l: "report_loop env bs (?pt0, 0, 0) st
          = (Inr (pt', sum_list (map si bs), sum_list (map ci bs)), st')" and
    r: "rows pt' = map (\<lambda>b. (b, Value (sz b), Value (ct b))) bs"
    by (auto simp: PrettyTable_def)
  from report_loop_effect [OF l] have
    f: "field_names pt' = [''Bucket name'', ''Size [Bytes]'', ''Object count'']"
    and o: "stdout st' = stdout st" "logged st' = logged st"
    by (simp_all add: PrettyTable_def)
  have "align ?pt0 = [(''Bucket name'', ''c''), (''Size [Bytes]'', ''c''), (''Object count'', ''c'')]"
    by (simp add: PrettyTable_def)
  with report_loop_align [OF l] have
    a: "align pt' = (if bs = []
                        then [(''Bucket name'', ''c''), (''Size [Bytes]'', ''c''),
                              (''Object count'', ''c'')]
                        else [(''Bucket name'', ''l''), (''Size [Bytes]'', ''r''),
                              (''Object count'', ''r'')])"
    by simp
  from f a r have "pt' = \<lparr>field_names = [''Bucket name'', ''Size [Bytes]'', ''Object count''],
                      align = (if bs = []
                        then [(''Bucket name'', ''c''), (''Size [Bytes]'', ''c''),
                              (''Object count'', ''c'')]
                        else [(''Bucket name'', ''l''), (''Size [Bytes]'', ''r''),
                              (''Object count'', ''r'')]),
                      rows = map (\<lambda>b. (b, Value (sz b), Value (ct b))) bs\<rparr>"
    by (cases pt') simp
  with l o show ?thesis by blast
qed

section \<open>Printing the report\<close>

lemma get_string_Inr: "get_string maxd title pt = Inr t \<Longrightarrow> t = Table title pt"
  by (simp add: get_string_def split: if_splits)

lemma get_string_no_rows: "rows pt = [] \<Longrightarrow> get_string maxd title pt = Inr (Table title pt)"
  by (simp add: get_string_def)

lemma py_str_int_Inr: "py_str_int maxd n = Inr s \<Longrightarrow> s = str_int n"
  by (simp add: py_str_int_def split: if_splits)

lemma print_report_eq:
  assumes "bytes_to_gb bytes_sum = Inr gb"
      and "get_string (int_max_str_digits env) ''S3 bucket metrics'' pt = Inr t"
      and "py_str_int (int_max_str_digits env) count_sum = Inr n"
  shows "print_report env (pt, bytes_sum, count_sum) st =
     (Inr (), st\<lparr>stdout := stdout st @ report_output pt (format_2f gb) (str_int count_sum)\<rparr>)"
  using assms get_string_Inr [OF assms(2)] py_str_int_Inr [OF assms(3)]
  by (simp add: print_report_def bindS_def print_def liftS_def)

lemma print_report_Inr:
  assumes "print_report env (pt, bytes_sum, count_sum) st = (Inr u, st')"
  shows "\<exists>gb. bytes_to_gb bytes_sum = Inr gb \<and>
     get_string (int_max_str_digits env) ''S3 bucket metrics'' pt
       = Inr (Table ''S3 bucket metrics'' pt) \<and>
     py_str_int (int_max_str_digits env) count_sum = Inr (str_int count_sum) \<and>
     st' = st\<lparr>stdout := stdout st @ report_output pt (format_2f gb) (str_int count_sum)\<rparr>"
proof -
  obtain t where t: "get_string (int_max_str_digits env) ''S3 bucket metrics'' pt = Inr t"
    using assms
    by (cases "get_string (int_max_str_digits env) ''S3 bucket metrics'' pt")
       (simp_all add: print_report_def bindS_def print_def liftS_def)
  obtain gb where g: "bytes_to_gb bytes_sum = Inr gb"
    using assms t
    by (cases "bytes_to_gb bytes_sum")
       (simp_all add: print_report_def bindS_def print_def liftS_def)
  obtain n where n: "py_str_int (int_max_str_digits env) count_sum = Inr n"
    using assms t g
    by (cases "py_str_int (int_max_str_digits env) count_sum")
       (simp_all add: print_report_def bindS_def print_def liftS_def)
  from assms print_report_eq [OF g t n, of st]
  have "st' = st\<lparr>stdout := stdout st @
          report_output pt (format_2f gb) (str_int count_sum)\<rparr>"
    by simp
  with g t n get_string_Inr [OF t] py_str_int_Inr [OF n] show ?thesis
    by simp
qed

lemma round_53_small: "\<bar>n\<bar> < 2 ^ 53 \<Longrightarrow> round_53 n = n"
  by (simp add: round_53_def)

lemma bytes_to_gb_exact:
  assumes "\<bar>n\<bar> < 2 ^ 53"
  shows "bytes_to_gb n = Inr (of_int n / 1024 ^ 3)"
proof -
  have "\<bar>n\<bar> < (2::int) ^ 1034"
    using assms by (rule less_trans) simp
  then show ?thesis
    using assms by (simp add: bytes_to_gb_def true_div_1024_def round_53_small bind_exn_def)
qed

lemma digits10_small: "n < 10 \<Longrightarrow> digits10 n = [digit_char n]"
  by (subst digits10.simps) simp

lemma digits10_large: "\<not> n < 10 \<Longrightarrow> digits10 n = digits10 (n div 10) @ [digit_char (n mod 10)]"
  by (subst digits10.simps) simp

lemma format_2f_zero: "format_2f 0 = ''0.00''"
  by (simp add: format_2f_def round_half_even_def digits10_small digit_char_def)

lemma str_int_zero: "str_int 0 = ''0''"
  by (simp add: str_int_def digits10_small digit_char_def)

lemma truncate_rat_integer_part:
  "\<bar>of_int (truncate_rat r)\<bar> \<le> \<bar>r\<bar> \<and> \<bar>r - of_int (truncate_rat r)\<bar> < 1"
  unfolding truncate_rat_def by (cases "0 \<le> r") (simp_all, linarith+)


lemma report_Inr:
  assumes "report env buckets st = (Inr u, st')"
  shows "\<exists>pt bytes_sum count_sum st1 gb.
           report_loop env buckets
             (PrettyTable [''Bucket name'', ''Size [Bytes]'', ''Object count''], 0, 0) st
             = (Inr (pt, bytes_sum, count_sum), st1) \<and>
           bytes_to_gb bytes_sum = Inr gb \<and>
           st' = st1\<lparr>stdout := stdout st1 @ report_output pt (format_2f gb) (str_int count_sum)\<rparr>"
proof -
  from assms obtain acc st1 where
    l: "report_loop env buckets
          (PrettyTable [''Bucket name'', ''Size [Bytes]'', ''Object count''], 0, 0) st = (Inr acc, st1)"
    and p: "print_report env acc st1 = (Inr u, st')"
    unfolding report_def by (blast dest: bindS_Inr)
  obtain pt x y where acc: "acc = (pt, x, y)" by (cases acc)
  from print_report_Inr [OF p [unfolded acc]] l acc show ?thesis by blast
qed

lemma report_stable:
  assumes "\<forall>b\<in>set bs. \<forall>s. fst (get_bucket_size env b s) = Inr (sz b)"
      and "\<forall>b\<in>set bs. \<forall>s. fst (get_bucket_object_count env b s) = Inr (ct b)"
      and "\<forall>b\<in>set bs. py_int (int_of_str env) (Value (sz b)) = Inr (si b)"
      and "\<forall>b\<in>set bs. py_int (int_of_str env) (Value (ct b)) = Inr (ci b)"
      and "bytes_to_gb (sum_list (map si bs)) = Inr gb"
      and "get_string (int_max_str_digits env) ''S3 bucket metrics''
             \<lparr>field_names = [''Bucket name'', ''Size [Bytes]'', ''Object count''],
              align = (if bs = []
                then [(''Bucket name'', ''c''), (''Size [Bytes]'', ''c''),
                      (''Object count'', ''c'')]
                else [(''Bucket name'', ''l''), (''Size [Bytes]'', ''r''),
                      (''Object count'', ''r'')]),
              rows = map (\<lambda>b. (b, Value (sz b), Value (ct b))) bs\<rparr> = Inr t"
      and "py_str_int (int_max_str_digits env) (sum_list (map ci bs)) = Inr n"
  shows "fst (report env bs st) = Inr () \<and>
         stdout (snd (report env bs st)) = stdout st @
           report_output
             \<lparr>field_names = [''Bucket name'', ''Size [Bytes]'', ''Object count''],
              align = (if bs = []
                then [(''Bucket name'', ''c''), (''Size [Bytes]'', ''c''),
                      (''Object count'', ''c'')]
                else [(''Bucket name'', ''l''), (''Size [Bytes]'', ''r''),
                      (''Object count'', ''r'')]),
              rows = map (\<lambda>b. (b, Value (sz b), Value (ct b))) bs\<rparr>
             (format_2f gb) (str_int (sum_list (map ci bs)))"
proof -
  from report_loop_new_table [OF assms(1-4), of st] obtain st1 where
    l: "report_loop env bs
          (PrettyTable [''Bucket name'', ''Size [Bytes]'', ''Object count''], 0, 0) st
          = (Inr (\<lparr>field_names = [''Bucket name'', ''Size [Bytes]'', ''Object count''],
                   align = (if bs = []
                     then [(''Bucket name'', ''c''), (''Size [Bytes]'', ''c''),
                           (''Object count'', ''c'')]
                     else [(''Bucket name'', ''l''), (''Size [Bytes]'', ''r''),
                           (''Object count'', ''r'')]),
                   rows = map (\<lambda>b. (b, Value (sz b), Value (ct b))) bs\<rparr>,
                  sum_list (map si bs), sum_list (map ci bs)), st1)"
    and o: "stdout st1 = stdout st"
    by blast
  show ?thesis
    unfolding report_def by (simp add: bindS_def l print_report_eq [OF assms(5-7)] o)
qed

lemma completed_report_calls:
  assumes "report env buckets st = (Inr u, st')"
  shows "\<exists>new. calls st' = calls st @ new \<and>
           map fetch_of new = concat (map fetches_of_bucket buckets) \<and>
           length new = 4 * length buckets"
proof -
  from report_Inr [OF assms] obtain pt bytes_sum count_sum st1 gb where
    l: "report_loop env buckets
          (PrettyTable [''Bucket name'', ''Size [Bytes]'', ''Object count''], 0, 0) st
          = (Inr (pt, bytes_sum, count_sum), st1)" and
    st': "st' = st1\<lparr>stdout := stdout st1 @ report_output pt (format_2f gb) (str_int count_sum)\<rparr>"
    by blast
  from report_loop_effect [OF l] obtain new where
    new: "calls st1 = calls st @ new" "map fetch_of new = concat (map fetches_of_bucket buckets)"
    by blast
  have "length (concat (map fetches_of_bucket buckets)) = 4 * length buckets"
    by (induction buckets) simp_all
  with new have "length new = 4 * length buckets"
    by (metis length_map)
  with new st' show ?thesis by simp
qed

lemma completed_report_rows:
  assumes "report env buckets st = (Inr u, st')"
  shows "\<exists>pt gb n. stdout st' = stdout st @ report_output pt gb n \<and>
           map fst (rows pt) = buckets"
proof -
  from report_Inr [OF assms] obtain pt bytes_sum count_sum st1 gb where
    l: "report_loop env buckets
          (PrettyTable [''Bucket name'', ''Size [Bytes]'', ''Object count''], 0, 0) st
          = (Inr (pt, bytes_sum, count_sum), st1)" and
    st': "st' = st1\<lparr>stdout := stdout st1 @ report_output pt (format_2f gb) (str_int count_sum)\<rparr>"
    by blast
  from report_loop_effect [OF l] have "map fst (rows pt) = buckets" "stdout st1 = stdout st"
    by (simp_all add: PrettyTable_def)
  with st' show ?thesis by simp
qed

lemma query_bucket_session:
  assumes "Session env prof ''ap-southeast-2'' (world st) = Inr u"
  shows "query_bucket env prof bucket st = bindS (select_buckets env bucket) (report env) st"
  using assms
  by (simp add: query_bucket_def AwsSession_init_def cli_def bindS_def liftS_def)

lemma query_bucket_Inr:
  assumes "query_bucket env prof bucket st = (Inr u, st')"
  shows "\<exists>buckets st1. select_buckets env bucket st = (Inr buckets, st1) \<and>
           report env buckets st1 = (Inr u, st')"
proof (cases "Session env prof ''ap-southeast-2'' (world st)")
  case (Inl e)
  with assms show ?thesis
    by (simp add: query_bucket_def AwsSession_init_def cli_def bindS_def liftS_def
          logger_call_def split: if_splits)
next
  case (Inr v)
  from assms [unfolded query_bucket_session [OF Inr]] show ?thesis
    by (rule bindS_Inr)
qed

section \<open>The example account\<close>

lemma example_env_fields:
  "get_metric_statistics example_env = example_cloudwatch"
  "list_buckets example_env = example_s3"
  "Session example_env = example_config"
  "int_of_str example_env = (\<lambda>s. Inl ValueError)"
  "int_max_str_digits example_env = 4300"
  by (simp_all add: example_env_def)

lemma example_get_bucket_size:
  "fst (get_bucket_size example_env b s) = Inr (example_size b)"
  by (simp add: get_bucket_size_def get_s3_metric_def example_request example_env_fields
        example_cloudwatch_def first_datapoint_def bind_exn_def example_size_def
      del: example_metrics.simps split: option.splits)

lemma example_get_bucket_object_count:
  "fst (get_bucket_object_count example_env b s) = Inr (example_count b)"
  by (simp add: get_bucket_object_count_def get_s3_metric_def example_request example_env_fields
        example_cloudwatch_def first_datapoint_def bind_exn_def example_count_def
      del: example_metrics.simps split: option.splits)

lemma example_py_int_size:
  "py_int (int_of_str example_env) (Value (example_size b)) = Inr (example_bytes b)"
  by (simp add: example_size_def example_bytes_def del: example_metrics.simps split: option.splits)

lemma example_py_int_count:
  "py_int (int_of_str example_env) (Value (example_count b)) = Inr (example_objects b)"
  by (simp add: example_count_def example_objects_def del: example_metrics.simps
      split: option.splits)

lemma example_cells:
  "\<not> str_raises (int_max_str_digits example_env) (Value (example_size b))"
  "\<not> str_raises (int_max_str_digits example_env) (Value (example_count b))"
  by (simp_all add: example_env_fields example_size_def example_count_def too_many_digits_def
        digits10_small del: example_metrics.simps split: option.splits)

lemma example_get_string:
  assumes "\<forall>b\<in>set bs. \<not> str_raises (int_max_str_digits example_env) b"
  shows "get_string (int_max_str_digits example_env) title
           \<lparr>field_names = names, align = al,
            rows = map (\<lambda>b. (b, Value (example_size b), Value (example_count b))) bs\<rparr>
         = Inr (Table title
           \<lparr>field_names = names, align = al,
            rows = map (\<lambda>b. (b, Value (example_size b), Value (example_count b))) bs\<rparr>)"
  using assms by (simp add: get_string_def list_ex_iff example_cells)

lemma example_report:
  assumes "bytes_to_gb (sum_list (map example_bytes bs)) = Inr gb"
      and "\<forall>b\<in>set bs. \<not> str_raises (int_max_str_digits example_env) b"
      and "py_str_int (int_max_str_digits example_env) (sum_list (map example_objects bs)) = Inr n"
  shows "fst (report example_env bs st) = Inr () \<and>
         stdout (snd (report example_env bs st)) = stdout st @
           report_output
             \<lparr>field_names = [''Bucket name'', ''Size [Bytes]'', ''Object count''],
              align = (if bs = []
                then [(''Bucket name'', ''c''), (''Size [Bytes]'', ''c''),
                      (''Object count'', ''c'')]
                else [(''Bucket name'', ''l''), (''Size [Bytes]'', ''r''),
                      (''Object count'', ''r'')]),
              rows = map (\<lambda>b. (b, Value (example_size b), Value (example_count b))) bs\<rparr>
             (format_2f gb) (str_int (sum_list (map example_objects bs)))"
  by (rule report_stable [OF _ _ _ _ assms(1) example_get_string [OF assms(2)] assms(3)])
     (simp_all add: example_get_bucket_size example_get_bucket_object_count example_py_int_size
        example_py_int_count)

lemmas example_values =
  example_size_def example_count_def example_bytes_def example_objects_def truncate_rat_def

lemma example_report_completes:
  assumes "bytes_to_gb (sum_list (map example_bytes bs)) = Inr gb"
      and "\<forall>b\<in>set bs. \<not> str_raises (int_max_str_digits example_env) b"
      and "py_str_int (int_max_str_digits example_env) (sum_list (map example_objects bs)) = Inr n"
  shows "report example_env bs st = (Inr (), snd (report example_env bs st))"
  using example_report [OF assms, of st] by (simp add: prod_eq_iff)

lemma example_run_a:
  shows "bytes_to_gb (sum_list (map example_bytes [PStr ''a''])) = Inr (1 / 1048576)"
    and "\<forall>b\<in>set [PStr ''a'']. \<not> str_raises (int_max_str_digits example_env) b"
    and "py_str_int (int_max_str_digits example_env)
           (sum_list (map example_objects [PStr ''a''])) = Inr ''5''"
  by (simp_all add: example_values bytes_to_gb_exact example_env_fields py_str_int_def
        too_many_digits_def str_int_def digits10_small digits10_large digit_char_def)

lemma example_run_ab:
  shows "bytes_to_gb (sum_list (map example_bytes [PStr ''a'', PStr ''b''])) = Inr (3 / 1048576)"
    and "\<forall>b\<in>set [PStr ''a'', PStr ''b'']. \<not> str_raises (int_max_str_digits example_env) b"
    and "py_str_int (int_max_str_digits example_env)
           (sum_list (map example_objects [PStr ''a'', PStr ''b''])) = Inr ''15''"
  by (simp_all add: example_values bytes_to_gb_exact example_env_fields py_str_int_def
        too_many_digits_def str_int_def digits10_small digits10_large digit_char_def)

lemma example_run_ba:
  shows "bytes_to_gb (sum_list (map example_bytes [PStr ''b'', PStr ''a''])) = Inr (3 / 1048576)"
    and "\<forall>b\<in>set [PStr ''b'', PStr ''a'']. \<not> str_raises (int_max_str_digits example_env) b"
    and "py_str_int (int_max_str_digits example_env)
           (sum_list (map example_objects [PStr ''b'', PStr ''a''])) = Inr ''15''"
  by (simp_all add: example_values bytes_to_gb_exact example_env_fields py_str_int_def
        too_many_digits_def str_int_def digits10_small digits10_large digit_char_def)

lemma example_run_zz:
  shows "bytes_to_gb (sum_list (map example_bytes [PStr ''zz''])) = Inr (0)"
    and "\<forall>b\<in>set [PStr ''zz'']. \<not> str_raises (int_max_str_digits example_env) b"
    and "py_str_int (int_max_str_digits example_env)
           (sum_list (map example_objects [PStr ''zz''])) = Inr ''0''"
  by (simp_all add: example_values bytes_to_gb_exact example_env_fields py_str_int_def
        too_many_digits_def str_int_def digits10_small digits10_large digit_char_def)

lemma example_query:
  "query_bucket example_env (Some ''dev'') bucket st
     = bindS (select_buckets example_env bucket) (report example_env) st"
  by (rule query_bucket_session [of _ _ _ "()"])
     (simp add: example_env_fields example_config_def)

lemma example_query_zz:
  "query_bucket example_env (Some ''dev'') (Some ''zz'') start
     = (Inr (), snd (query_bucket example_env (Some ''dev'') (Some ''zz'') start))"
  using example_report_completes [OF example_run_zz, of start]
  by (simp add: example_query select_buckets_def liftS_def bindS_def)

lemma example_select_all:
  "select_buckets example_env (Some '''') st
     = (Inr [PStr ''a'', PStr ''b''], st\<lparr>calls := calls st @ [ListBuckets]\<rparr>)"
  by (simp add: select_buckets_def all_buckets_def example_env_fields example_s3_def bind_exn_def)

lemma fetches_no_listing:
  assumes "map fetch_of new = concat (map fetches_of_bucket buckets)"
  shows "ListBuckets \<notin> set new"
proof
  assume "ListBuckets \<in> set new"
  then have "None \<in> fetch_of ` set new"
    by (metis fetch_of.simps(2) imageI)
  with assms have "None \<in> set (concat (map fetches_of_bucket buckets))"
    by (metis set_map)
  then show False by auto
qed

lemma single_name: "map fst rs = [x] \<Longrightarrow> length rs = 1"
  by (cases rs) simp_all

section \<open>The listing\<close>

lemma names_of_order:
  "names_of bs acc = Inr names \<Longrightarrow>
   map Inr names = map Inr acc @ map (\<lambda>b. getitem_key b ''Name'') bs"
proof (induction bs arbitrary: acc)
  case Nil
  then show ?case by simp
next
  case (Cons b bs)
  from Cons.prems obtain name where
    n: "getitem_key b ''Name'' = Inr name" and
    r: "names_of bs (acc @ [name]) = Inr names"
    by (cases "getitem_key b ''Name''") (simp_all add: bind_exn_def)
  from Cons.IH [OF r] n show ?case by simp
qed

text \<open>
  The buckets of a listing are the names of its entries, in the order of the listing.
\<close>

lemma all_buckets_order:
  assumes "all_buckets env st = (Inr buckets, st')"
  shows "\<exists>s3_buckets w' listing bs.
           list_buckets env (world st) = (Inr s3_buckets, w') \<and>
           getitem_key s3_buckets ''Buckets'' = Inr listing \<and>
           py_iter listing = Inr bs \<and>
           map Inr buckets = map (\<lambda>b. getitem_key b ''Name'') bs \<and>
           stdout st' = stdout st \<and> calls st' = calls st @ [ListBuckets]"
proof -
  obtain res w' where l: "list_buckets env (world st) = (res, w')"
    by (cases "list_buckets env (world st)")
  with assms obtain s3_buckets where s: "res = Inr s3_buckets"
    by (cases res) (simp_all add: all_buckets_def)
  with assms l obtain listing where g: "getitem_key s3_buckets ''Buckets'' = Inr listing"
    by (cases "getitem_key s3_buckets ''Buckets''") (simp_all add: all_buckets_def bind_exn_def)
  with assms l s obtain bs where i: "py_iter listing = Inr bs"
    by (cases "py_iter listing") (simp_all add: all_buckets_def bind_exn_def)
  with assms l s g have n: "names_of bs [] = Inr buckets"
    and e: "stdout st' = stdout st" "calls st' = calls st @ [ListBuckets]"
    by (auto simp: all_buckets_def bind_exn_def)
  from names_of_order [OF n] have "map Inr buckets = map (\<lambda>b. getitem_key b ''Name'') bs"
    by simp
  with l s g i e show ?thesis by blast
qed

section \<open>The printed numbers\<close>




























section \<open>The account with two large buckets\<close>







section \<open>The report builder\<close>

text \<open>
  Claim C2, as the code has it. A report that completes has sent exactly four queries per
  bucket, in the order of the buckets: for each bucket the size, the object count, the
  size again and the object count again. Each metric is fetched twice per bucket, once for
  the row of the table and once for the total.
\<close>

theorem report_fetches_each_metric_twice:
  assumes "report env buckets st = (Inr u, st')"
  shows "\<exists>new. calls st' = calls st @ new \<and>
           map fetch_of new = concat (map fetches_of_bucket buckets) \<and>
           length new = 4 * length buckets"
  using assms by (rule completed_report_calls)

theorem report_fetches_each_metric_twice_witness:
  "fst (report example_env [PStr ''a'', PStr ''b''] start) = Inr () \<and>
   length (calls (snd (report example_env [PStr ''a'', PStr ''b''] start))) = 8"
  using report_fetches_each_metric_twice [OF example_report_completes [OF example_run_ab, of start]]
    example_report [OF example_run_ab, of start]
  by (auto simp: start_def)

theorem report_two_fetches_counterexample:
  "map fetch_of (calls (snd (report example_env [PStr ''a''] start))) =
     [Some (PStr ''a'', ''BucketSizeBytes''), Some (PStr ''a'', ''NumberOfObjects''),
      Some (PStr ''a'', ''BucketSizeBytes''), Some (PStr ''a'', ''NumberOfObjects'')]"
  using completed_report_calls [OF example_report_completes [OF example_run_a, of start]]
  by (auto simp: start_def)

text \<open>
  Claim C8. In a report that completes, the bucket names of the rows of the printed table
  are the sequence of buckets the report was given, in that order.
\<close>

theorem report_rows_in_order:
  assumes "report env buckets st = (Inr u, st')"
  shows "\<exists>pt gb n. stdout st' = stdout st @ report_output pt gb n \<and>
           map fst (rows pt) = buckets"
  using assms by (rule completed_report_rows)

theorem report_rows_in_order_witness:
  "fst (report example_env [PStr ''b'', PStr ''a''] start) = Inr () \<and>
   (\<exists>pt gb n. stdout (snd (report example_env [PStr ''b'', PStr ''a''] start))
                = report_output pt gb n \<and>
              map fst (rows pt) = [PStr ''b'', PStr ''a''])"
  using report_rows_in_order [OF example_report_completes [OF example_run_ba, of start]]
    example_report [OF example_run_ba, of start]
  by (simp add: start_def)

text \<open>
  Claim C9. For the empty sequence of buckets the loop does nothing, and the report
  prints the table with its title, its three field names and no row, then the totals
  \<open>0.00\<close> and \<open>0\<close>, and raises nothing.
\<close>

theorem report_empty:
  "report_loop env [] acc st = (Inr acc, st) \<and>
   report env [] st =
     (Inr (), st\<lparr>stdout := stdout st @
        report_output
          \<lparr>field_names = [''Bucket name'', ''Size [Bytes]'', ''Object count''],
           align = [(''Bucket name'', ''c''), (''Size [Bytes]'', ''c''), (''Object count'', ''c'')],
           rows = []\<rparr>
          ''0.00'' ''0''\<rparr>)"
proof -
  have gb: "bytes_to_gb 0 = Inr 0"
    using bytes_to_gb_exact [of 0] by simp
  have n: "py_str_int (int_max_str_digits env) 0 = Inr ''0''"
    by (auto simp: py_str_int_def too_many_digits_def digits10_small str_int_zero)
  have t: "get_string (int_max_str_digits env) ''S3 bucket metrics''
             (PrettyTable [''Bucket name'', ''Size [Bytes]'', ''Object count''])
           = Inr (Table ''S3 bucket metrics''
                    (PrettyTable [''Bucket name'', ''Size [Bytes]'', ''Object count'']))"
    by (rule get_string_no_rows) (simp add: PrettyTable_def)
  have p: "print_report env
             (\<lparr>field_names = [''Bucket name'', ''Size [Bytes]'', ''Object count''],
               align = [(''Bucket name'', ''c''), (''Size [Bytes]'', ''c''),
                        (''Object count'', ''c'')],
               rows = []\<rparr>, 0, 0) st =
     (Inr (), st\<lparr>stdout := stdout st @
        report_output
          \<lparr>field_names = [''Bucket name'', ''Size [Bytes]'', ''Object count''],
           align = [(''Bucket name'', ''c''), (''Size [Bytes]'', ''c''), (''Object count'', ''c'')],
           rows = []\<rparr>
          ''0.00'' ''0''\<rparr>)"
    using print_report_eq [OF gb t n, of st]
    by (simp add: PrettyTable_def format_2f_zero str_int_zero)
  show ?thesis
    by (simp add: report_def bindS_def PrettyTable_def p)
qed




text \<open>
  Claim C10. In every pass of the loop that completes, the row added for the bucket holds
  the values of the first two samples the gateway returned, as they are, and the sums grow
  by \<^verbatim>\<open>int\<close> of the values of the next two samples. When the gateway answers the
  same sample for a bucket at every call, the rows hold the values of the buckets
  untruncated while the totals are the sums of their integer parts; \<^verbatim>\<open>int\<close> of a
  finite float is its truncation towards zero.
\<close>

theorem rows_untruncated_totals_truncated:
  "(\<forall>acc' st'. loop_body env b (pt, bytes_sum, count_sum) st = (Inr acc', st') \<longrightarrow>
      (\<exists>size1 count1 size2 count2 i j st1 st2 st3.
         get_bucket_size env b st = (Inr size1, st1) \<and>
         get_bucket_object_count env b st1 = (Inr count1, st2) \<and>
         get_bucket_size env b st2 = (Inr size2, st3) \<and>
         get_bucket_object_count env b st3 = (Inr count2, st') \<and>
         py_int (int_of_str env) (Value size2) = Inr i \<and>
         py_int (int_of_str env) (Value count2) = Inr j \<and>
         rows (fst acc') = rows pt @ [(b, Value size1, Value count1)] \<and>
         snd acc' = (bytes_sum + i, count_sum + j))) \<and>
   ((\<forall>b\<in>set buckets. \<forall>s. fst (get_bucket_size env b s) = Inr (sz b)) \<and>
    (\<forall>b\<in>set buckets. \<forall>s. fst (get_bucket_object_count env b s) = Inr (ct b)) \<and>
    (\<forall>b\<in>set buckets. py_int (int_of_str env) (Value (sz b)) = Inr (si b)) \<and>
    (\<forall>b\<in>set buckets. py_int (int_of_str env) (Value (ct b)) = Inr (ci b)) \<longrightarrow>
      fst (report_loop env buckets
             (PrettyTable [''Bucket name'', ''Size [Bytes]'', ''Object count''], 0, 0) st)
        = Inr (\<lparr>field_names = [''Bucket name'', ''Size [Bytes]'', ''Object count''],
                 align = (if buckets = []
                   then [(''Bucket name'', ''c''), (''Size [Bytes]'', ''c''),
                         (''Object count'', ''c'')]
                   else [(''Bucket name'', ''l''), (''Size [Bytes]'', ''r''),
                         (''Object count'', ''r'')]),
                 rows = map (\<lambda>b. (b, Value (sz b), Value (ct b))) buckets\<rparr>,
               sum_list (map si buckets), sum_list (map ci buckets))) \<and>
   (\<forall>r. py_int (int_of_str env) (PFloat (Finite r)) = Inr (truncate_rat r) \<and>
        \<bar>of_int (truncate_rat r)\<bar> \<le> \<bar>r\<bar> \<and> \<bar>r - of_int (truncate_rat r)\<bar> < 1)"
proof (intro conjI)
  show "\<forall>acc' st'. loop_body env b (pt, bytes_sum, count_sum) st = (Inr acc', st') \<longrightarrow>
      (\<exists>size1 count1 size2 count2 i j st1 st2 st3.
         get_bucket_size env b st = (Inr size1, st1) \<and>
         get_bucket_object_count env b st1 = (Inr count1, st2) \<and>
         get_bucket_size env b st2 = (Inr size2, st3) \<and>
         get_bucket_object_count env b st3 = (Inr count2, st') \<and>
         py_int (int_of_str env) (Value size2) = Inr i \<and>
         py_int (int_of_str env) (Value count2) = Inr j \<and>
         rows (fst acc') = rows pt @ [(b, Value size1, Value count1)] \<and>
         snd acc' = (bytes_sum + i, count_sum + j))"
  proof (intro allI impI)
    fix acc' st'
    assume "loop_body env b (pt, bytes_sum, count_sum) st = (Inr acc', st')"
    from loop_body_Inr [OF this] obtain size1 count1 size2 count2 i j st1 st2 st3 where
      f: "get_bucket_size env b st = (Inr size1, st1)"
         "get_bucket_object_count env b st1 = (Inr count1, st2)"
         "get_bucket_size env b st2 = (Inr size2, st3)"
         "get_bucket_object_count env b st3 = (Inr count2, st')"
         "py_int (int_of_str env) (Value size2) = Inr i"
         "py_int (int_of_str env) (Value count2) = Inr j" and
      acc: "acc' = (add_row (b, Value size1, Value count1)
                     (set_align ''Object count'' ''r''
                       (set_align ''Size [Bytes]'' ''r'' (set_align ''Bucket name'' ''l'' pt))),
                   bytes_sum + i, count_sum + j)"
      by (elim exE conjE) (rule that)
    from acc have "rows (fst acc') = rows pt @ [(b, Value size1, Value count1)]"
      and "snd acc' = (bytes_sum + i, count_sum + j)"
      by (simp_all add: add_row_def set_align_def)
    with f show "\<exists>size1 count1 size2 count2 i j st1 st2 st3.
         get_bucket_size env b st = (Inr size1, st1) \<and>
         get_bucket_object_count env b st1 = (Inr count1, st2) \<and>
         get_bucket_size env b st2 = (Inr size2, st3) \<and>
         get_bucket_object_count env b st3 = (Inr count2, st') \<and>
         py_int (int_of_str env) (Value size2) = Inr i \<and>
         py_int (int_of_str env) (Value count2) = Inr j \<and>
         rows (fst acc') = rows pt @ [(b, Value size1, Value count1)] \<and>
         snd acc' = (bytes_sum + i, count_sum + j)"
      by (intro exI conjI)
  qed
next
  show "(\<forall>b\<in>set buckets. \<forall>s. fst (get_bucket_size env b s) = Inr (sz b)) \<and>
    (\<forall>b\<in>set buckets. \<forall>s. fst (get_bucket_object_count env b s) = Inr (ct b)) \<and>
    (\<forall>b\<in>set buckets. py_int (int_of_str env) (Value (sz b)) = Inr (si b)) \<and>
    (\<forall>b\<in>set buckets. py_int (int_of_str env) (Value (ct b)) = Inr (ci b)) \<longrightarrow>
      fst (report_loop env buckets
             (PrettyTable [''Bucket name'', ''Size [Bytes]'', ''Object count''], 0, 0) st)
        = Inr (\<lparr>field_names = [''Bucket name'', ''Size [Bytes]'', ''Object count''],
                 align = (if buckets = []
                   then [(''Bucket name'', ''c''), (''Size [Bytes]'', ''c''),
                         (''Object count'', ''c'')]
                   else [(''Bucket name'', ''l''), (''Size [Bytes]'', ''r''),
                         (''Object count'', ''r'')]),
                 rows = map (\<lambda>b. (b, Value (sz b), Value (ct b))) buckets\<rparr>,
               sum_list (map si buckets), sum_list (map ci buckets))"
  proof (intro impI, elim conjE)
    assume h: "\<forall>b\<in>set buckets. \<forall>s. fst (get_bucket_size env b s) = Inr (sz b)"
      "\<forall>b\<in>set buckets. \<forall>s. fst (get_bucket_object_count env b s) = Inr (ct b)"
      "\<forall>b\<in>set buckets. py_int (int_of_str env) (Value (sz b)) = Inr (si b)"
      "\<forall>b\<in>set buckets. py_int (int_of_str env) (Value (ct b)) = Inr (ci b)"
    from report_loop_new_table [OF h, of st] show
      "fst (report_loop env buckets
             (PrettyTable [''Bucket name'', ''Size [Bytes]'', ''Object count''], 0, 0) st)
        = Inr (\<lparr>field_names = [''Bucket name'', ''Size [Bytes]'', ''Object count''],
                 align = (if buckets = []
                   then [(''Bucket name'', ''c''), (''Size [Bytes]'', ''c''),
                         (''Object count'', ''c'')]
                   else [(''Bucket name'', ''l''), (''Size [Bytes]'', ''r''),
                         (''Object count'', ''r'')]),
                 rows = map (\<lambda>b. (b, Value (sz b), Value (ct b))) buckets\<rparr>,
               sum_list (map si buckets), sum_list (map ci buckets))"
      by auto
  qed
next
  show "\<forall>r. py_int (int_of_str env) (PFloat (Finite r)) = Inr (truncate_rat r) \<and>
        \<bar>of_int (truncate_rat r)\<bar> \<le> \<bar>r\<bar> \<and> \<bar>r - of_int (truncate_rat r)\<bar> < 1"
    using truncate_rat_integer_part by simp
qed

theorem rows_untruncated_totals_truncated_witness:
  "fst (report_loop example_env [PStr ''c'']
          (PrettyTable [''Bucket name'', ''Size [Bytes]'', ''Object count''], 0, 0) start)
     = Inr (\<lparr>field_names = [''Bucket name'', ''Size [Bytes]'', ''Object count''],
              align = [(''Bucket name'', ''l''), (''Size [Bytes]'', ''r''),
                       (''Object count'', ''r'')],
              rows = [(PStr ''c'', PFloat (Finite (43 / 4)), PFloat (Finite 3))]\<rparr>,
            10, 3)"
proof -
  have "(\<forall>b\<in>set [PStr ''c''].
          \<forall>s. fst (get_bucket_size example_env b s) = Inr (example_size b)) \<and>
    (\<forall>b\<in>set [PStr ''c''].
          \<forall>s. fst (get_bucket_object_count example_env b s) = Inr (example_count b)) \<and>
    (\<forall>b\<in>set [PStr ''c''].
          py_int (int_of_str example_env) (Value (example_size b)) = Inr (example_bytes b)) \<and>
    (\<forall>b\<in>set [PStr ''c''].
          py_int (int_of_str example_env) (Value (example_count b)) = Inr (example_objects b))"
    by (simp add: example_get_bucket_size example_get_bucket_object_count
          example_py_int_size example_py_int_count)
  with rows_untruncated_totals_truncated [where env = example_env and buckets = "[PStr ''c'']"
      and sz = example_size and ct = example_count and si = example_bytes
      and ci = example_objects and st = start]
  have "fst (report_loop example_env [PStr ''c'']
          (PrettyTable [''Bucket name'', ''Size [Bytes]'', ''Object count''], 0, 0) start)
     = Inr (\<lparr>field_names = [''Bucket name'', ''Size [Bytes]'', ''Object count''],
              align = (if [PStr ''c''] = []
                      then [(''Bucket name'', ''c''), (''Size [Bytes]'', ''c''),
                            (''Object count'', ''c'')]
                      else [(''Bucket name'', ''l''), (''Size [Bytes]'', ''r''),
                            (''Object count'', ''r'')]),
              rows = map (\<lambda>b. (b, Value (example_size b), Value (example_count b)))
                       [PStr ''c'']\<rparr>,
            sum_list (map example_bytes [PStr ''c'']),
            sum_list (map example_objects [PStr ''c'']))"
    by blast
  then show ?thesis
    by (simp add: example_values floor_eq_iff del: report_loop.simps)
qed

section \<open>The choice of the buckets\<close>

text \<open>Without a name, or with the empty name, the buckets are those of the listing.\<close>

lemma select_buckets_unnamed:
  "select_buckets env None = all_buckets env"
  "select_buckets env (Some []) = all_buckets env"
  by (simp_all add: select_buckets_def)

text \<open>
  Claim C7, as the code has it. For every bucket name that is not the empty string, the
  working set is that single name and no listing is requested; a command that completes
  has printed a table of exactly one row, for that name. The empty string counts as no
  name at all: the buckets of the account are listed.
\<close>

theorem explicit_bucket_single_row:
  assumes "X \<noteq> []"
  shows "select_buckets env (Some X) st = (Inr [PStr X], st) \<and>
         (query_bucket env prof (Some X) st = (Inr u, st') \<longrightarrow>
            (\<exists>pt gb n. stdout st' = stdout st @ report_output pt gb n \<and>
                       map fst (rows pt) = [PStr X] \<and> length (rows pt) = 1) \<and>
            (\<exists>new. calls st' = calls st @ new \<and> ListBuckets \<notin> set new))"
proof -
  from assms have sel: "select_buckets env (Some X) st = (Inr [PStr X], st)"
    by (simp add: select_buckets_def liftS_def)
  {
    assume "query_bucket env prof (Some X) st = (Inr u, st')"
    from query_bucket_Inr [OF this] sel have r: "report env [PStr X] st = (Inr u, st')"
      by simp
    from completed_report_rows [OF r] obtain pt gb n where
      a: "stdout st' = stdout st @ report_output pt gb n" and
      b: "map fst (rows pt) = [PStr X]"
      by (elim exE conjE) (rule that)
    from b have c: "length (rows pt) = 1"
      by (rule single_name)
    have "\<exists>pt gb n. stdout st' = stdout st @ report_output pt gb n \<and>
                       map fst (rows pt) = [PStr X] \<and> length (rows pt) = 1"
      by (intro exI conjI) (rule a, rule b, rule c)
    moreover from completed_report_calls [OF r] fetches_no_listing
    have "\<exists>new. calls st' = calls st @ new \<and> ListBuckets \<notin> set new"
      by blast
    ultimately have "(\<exists>pt gb n. stdout st' = stdout st @ report_output pt gb n \<and>
                       map fst (rows pt) = [PStr X] \<and> length (rows pt) = 1) \<and>
            (\<exists>new. calls st' = calls st @ new \<and> ListBuckets \<notin> set new)"
      by blast
  }
  with sel show ?thesis by blast
qed

theorem explicit_bucket_single_row_witness:
  "''zz'' \<noteq> [] \<and>
   select_buckets example_env (Some ''zz'') start = (Inr [PStr ''zz''], start) \<and>
   fst (query_bucket example_env (Some ''dev'') (Some ''zz'') start) = Inr () \<and>
   (\<exists>pt gb n. stdout (snd (query_bucket example_env (Some ''dev'') (Some ''zz'') start))
                = report_output pt gb n \<and>
              map fst (rows pt) = [PStr ''zz''] \<and> length (rows pt) = 1)"
proof -
  let ?st' = "snd (query_bucket example_env (Some ''dev'') (Some ''zz'') start)"
  have ne: "''zz'' \<noteq> []" by simp
  have f: "fst (query_bucket example_env (Some ''dev'') (Some ''zz'') start) = Inr ()"
    using example_query_zz by (metis fst_conv)
  have e: "stdout start = []" by (simp add: start_def)
  from explicit_bucket_single_row [OF ne, of example_env start "Some ''dev''" "()" ?st']
  have "select_buckets example_env (Some ''zz'') start = (Inr [PStr ''zz''], start)"
    and "\<exists>pt gb n. stdout ?st' = stdout start @ report_output pt gb n \<and>
                   map fst (rows pt) = [PStr ''zz''] \<and> length (rows pt) = 1"
    using example_query_zz by blast+
  with ne f show ?thesis
    unfolding e append_Nil by (intro conjI)
qed

theorem empty_bucket_lists_all_counterexample:
  "select_buckets example_env (Some '''') start
     = (Inr [PStr ''a'', PStr ''b''],
        \<lparr>world = 0, calls = [ListBuckets], logged = [], stdout = []\<rparr>) \<and>
   stdout (snd (query_bucket example_env (Some ''dev'') (Some '''') start)) =
     report_output
       \<lparr>field_names = [''Bucket name'', ''Size [Bytes]'', ''Object count''],
        align = [(''Bucket name'', ''l''), (''Size [Bytes]'', ''r''), (''Object count'', ''r'')],
        rows = [(PStr ''a'', PFloat (Finite 1024), PFloat (Finite 5)),
                (PStr ''b'', PFloat (Finite 2048), PFloat (Finite 10))]\<rparr>
       ''0.00'' ''15''"
proof -
  let ?st = "start\<lparr>calls := calls start @ [ListBuckets]\<rparr>"
  from example_report [OF example_run_ab, of ?st]
  have "query_bucket example_env (Some ''dev'') (Some '''') start
          = report example_env [PStr ''a'', PStr ''b''] ?st"
    by (simp add: example_query bindS_def example_select_all)
  with example_report [OF example_run_ab, of ?st] show ?thesis
    by (simp add: example_select_all example_values start_def format_2f_def round_half_even_def
          Let_def str_int_def digits10_small digits10_large digit_char_def)
qed

end
